theory Spec2Isabelle
  imports Complex_Main
begin

section \<open>Python values\<close>

text \<open>
  A Python \<open>str\<close> is modelled as a \<open>string\<close> whose characters are the code points
  0..255 (Latin-1); \<open>length\<close> then counts what \<open>len\<close> counts. Code points above 255
  are outside the model.

  A parsed request body (\<open>request.get_json()\<close>) is a \<open>json\<close> value; a dict is an
  association list read with \<open>map_of\<close>. A JSON number without fraction and exponent is
  a Python int (\<open>JInt\<close>); any other number is a Python float (\<open>JFloat\<close>). A request
  without a JSON body reads as \<open>JNull\<close>: the handler then fails at \<open>data.get\<close> and
  answers 500, as it does when \<open>get_json\<close> itself raises.
\<close>

subsection \<open>Numbers\<close>

text \<open>
  A Python float is an IEEE binary64 double: \<open>Dbl r\<close> is the finite double whose value
  is the rational \<open>r\<close>, beside the two infinities and NaN, which Python's \<open>json\<close> also
  reads. The two zeros are not told apart. Arithmetic computes the exact result and
  rounds it to the nearest double, ties to the even significand
  (\<open>round_double\<close>): 53 bits of significand, exponents from -1022 to 1023,
  subnormals on the grid of \<open>2 ^ -1074\<close>, overflow to an infinity.
\<close>

datatype pyfloat = Dbl rat | PosInf | NegInf | NaN

datatype pynum = PyInt int | PyFloat pyfloat

text \<open>The number of binary digits of a positive integer.\<close>

function bits :: "int \<Rightarrow> int" where
  "bits n = (if n \<le> 0 then 0 else 1 + bits (n div 2))"
  by pat_completeness auto
termination
  by (relation "measure nat") auto

declare bits.simps [simp del]

definition pow2 :: "int \<Rightarrow> rat" where
  "pow2 k = (if 0 \<le> k then 2 ^ nat k else 1 / 2 ^ nat (- k))"

text \<open>The exponent \<open>e\<close> with \<open>2 ^ e \<le> |x| < 2 ^ (e + 1)\<close>, for \<open>x \<noteq> 0\<close>.\<close>

definition ilog2 :: "rat \<Rightarrow> int" where
  "ilog2 x =
     (let (a, b) = quotient_of \<bar>x\<bar>;
          k = bits a - bits b
      in if pow2 k \<le> \<bar>x\<bar> then k else k - 1)"

definition round_half_even :: "rat \<Rightarrow> int" where
  "round_half_even x =
     (let f = \<lfloor>x\<rfloor>; d = x - of_int f
      in if d < 1 / 2 then f else if 1 / 2 < d then f + 1 else if even f then f else f + 1)"

definition round_double :: "rat \<Rightarrow> pyfloat" where
  "round_double x =
     (if x = 0 then Dbl 0
      else let e = max (ilog2 x) (- 1022);
               q = pow2 (e - 52);
               r = of_int (round_half_even (x / q)) * q
           in if pow2 1024 \<le> \<bar>r\<bar> then (if 0 < x then PosInf else NegInf) else Dbl r)"

fun float_neg :: "pyfloat \<Rightarrow> pyfloat" where
  "float_neg (Dbl r) = Dbl (- r)"
| "float_neg PosInf = NegInf"
| "float_neg NegInf = PosInf"
| "float_neg NaN = NaN"

fun float_add :: "pyfloat \<Rightarrow> pyfloat \<Rightarrow> pyfloat" where
  "float_add NaN y = NaN"
| "float_add x NaN = NaN"
| "float_add PosInf NegInf = NaN"
| "float_add NegInf PosInf = NaN"
| "float_add PosInf y = PosInf"
| "float_add x PosInf = PosInf"
| "float_add NegInf y = NegInf"
| "float_add x NegInf = NegInf"
| "float_add (Dbl a) (Dbl b) = round_double (a + b)"

definition float_sub :: "pyfloat \<Rightarrow> pyfloat \<Rightarrow> pyfloat" where
  "float_sub x y = float_add x (float_neg y)"

datatype json =
    JNull
  | JBool bool
  | JInt int
  | JFloat pyfloat
  | JStr string
  | JArr "json list"
  | JObj "(string \<times> json) list"

text \<open>What a handler puts into \<open>jsonify\<close>. \<open>PIso t\<close> stands for the string
  \<open>t.isoformat()\<close> of the timestamp \<open>t\<close>.\<close>

datatype pyval =
    PNone
  | PBool bool
  | PInt int
  | PFloat pyfloat
  | PStr string
  | PIso nat
  | PDict "(string \<times> pyval) list"

text \<open>The exceptions the handlers' \<open>except Exception\<close> clauses catch.\<close>

datatype py_exc = AttributeError | TypeError | OverflowError | IntegrityError

text \<open>
  \<open>x + y\<close>, \<open>x - y\<close> and \<open>x > 0\<close> on ints and floats. Two ints are added exactly. When
  one operand is a float the int is converted first, which raises \<open>OverflowError\<close> for
  an int beyond the doubles; comparing an int or a float with 0 is exact.
\<close>

definition int_to_float :: "int \<Rightarrow> py_exc + pyfloat" where
  "int_to_float n =
     (case round_double (of_int n) of Dbl r \<Rightarrow> Inr (Dbl r) | _ \<Rightarrow> Inl OverflowError)"

fun to_float :: "pynum \<Rightarrow> py_exc + pyfloat" where
  "to_float (PyInt n) = int_to_float n"
| "to_float (PyFloat x) = Inr x"

fun py_add :: "pynum \<Rightarrow> pynum \<Rightarrow> py_exc + pynum" where
  "py_add (PyInt a) (PyInt b) = Inr (PyInt (a + b))"
| "py_add x y =
     (case to_float x of
        Inl ex \<Rightarrow> Inl ex
      | Inr a \<Rightarrow>
          (case to_float y of
             Inl ex \<Rightarrow> Inl ex
           | Inr b \<Rightarrow> Inr (PyFloat (float_add a b))))"

fun py_sub :: "pynum \<Rightarrow> pynum \<Rightarrow> py_exc + pynum" where
  "py_sub (PyInt a) (PyInt b) = Inr (PyInt (a - b))"
| "py_sub x y =
     (case to_float x of
        Inl ex \<Rightarrow> Inl ex
      | Inr a \<Rightarrow>
          (case to_float y of
             Inl ex \<Rightarrow> Inl ex
           | Inr b \<Rightarrow> Inr (PyFloat (float_sub a b))))"

fun float_gt_zero :: "pyfloat \<Rightarrow> bool" where
  "float_gt_zero (Dbl r) = (0 < r)"
| "float_gt_zero PosInf = True"
| "float_gt_zero NegInf = False"
| "float_gt_zero NaN = False"

fun float_le_zero :: "pyfloat \<Rightarrow> bool" where
  "float_le_zero (Dbl r) = (r \<le> 0)"
| "float_le_zero PosInf = False"
| "float_le_zero NegInf = True"
| "float_le_zero NaN = False"

fun py_gt_zero :: "pynum \<Rightarrow> bool" where
  "py_gt_zero (PyInt n) = (0 < n)"
| "py_gt_zero (PyFloat x) = float_gt_zero x"

text \<open>A number as \<open>jsonify\<close> gets it.\<close>

fun num_val :: "pynum \<Rightarrow> pyval" where
  "num_val (PyInt n) = PInt n"
| "num_val (PyFloat x) = PFloat x"

type_synonym response = "(string \<times> pyval) list \<times> nat"

text \<open>Python truthiness, as used by \<open>not data.get(field)\<close>.\<close>

fun truthy :: "json \<Rightarrow> bool" where
  "truthy JNull = False"
| "truthy (JBool b) = b"
| "truthy (JInt n) = (n \<noteq> 0)"
| "truthy (JFloat x) = (x \<noteq> Dbl 0)"
| "truthy (JStr s) = (s \<noteq> [])"
| "truthy (JArr xs) = (xs \<noteq> [])"
| "truthy (JObj kvs) = (kvs \<noteq> [])"

text \<open>\<open>data.get(key)\<close> and \<open>data.get(key, default)\<close> on a dict.\<close>

definition dict_get_default :: "(string \<times> json) list \<Rightarrow> string \<Rightarrow> json \<Rightarrow> json" where
  "dict_get_default data key dflt = (case map_of data key of None \<Rightarrow> dflt | Some v \<Rightarrow> v)"

definition dict_get :: "(string \<times> json) list \<Rightarrow> string \<Rightarrow> json" where
  "dict_get data key = dict_get_default data key JNull"

subsection \<open>String methods\<close>

definition in_range :: "char \<Rightarrow> char \<Rightarrow> char \<Rightarrow> bool" where
  "in_range lo hi c = ((of_char lo :: nat) \<le> of_char c \<and> (of_char c :: nat) \<le> of_char hi)"

text \<open>\<open>str.isspace\<close> on the code points 0..255: TAB..CR, FS..US, space, NEL, NBSP.\<close>

definition py_isspace :: "char \<Rightarrow> bool" where
  "py_isspace c = (in_range (CHR 0x09) (CHR 0x0D) c \<or> in_range (CHR 0x1C) (CHR 0x20) c
                   \<or> c = CHR 0x85 \<or> c = CHR 0xA0)"

definition py_strip :: "string \<Rightarrow> string" where
  "py_strip s = rev (dropWhile py_isspace (rev (dropWhile py_isspace s)))"

text \<open>\<open>str.lower\<close> on the code points 0..255: A..Z and the Latin-1 capitals
  (0xC0..0xDE without the multiplication sign 0xD7) move up by 32.\<close>

definition py_lower_char :: "char \<Rightarrow> char" where
  "py_lower_char c =
     (if in_range CHR ''A'' CHR ''Z'' c \<or> (in_range (CHR 0xC0) (CHR 0xDE) c \<and> c \<noteq> CHR 0xD7)
      then char_of ((of_char c :: nat) + 32) else c)"

definition py_lower :: "string \<Rightarrow> string" where
  "py_lower s = map py_lower_char s"

text \<open>\<open>str(n)\<close> for an int, used by the f-string of \<open>add_credits\<close>.\<close>

definition digit_char :: "nat \<Rightarrow> char" where
  "digit_char d = ''0123456789'' ! d"

fun digits :: "nat \<Rightarrow> string" where
  "digits n = (if n < 10 then [digit_char n] else digits (n div 10) @ [digit_char (n mod 10)])"

declare digits.simps [simp del]

definition py_str_int :: "int \<Rightarrow> string" where
  "py_str_int n = (if n < 0 then CHR ''-'' # digits (nat (- n)) else digits (nat n))"

subsection \<open>Regular expressions\<close>

text \<open>The fragment of \<open>re\<close> that \<open>validate_email\<close> uses, matched by derivatives.\<close>

datatype regex =
    Fail
  | Empty
  | Class "char \<Rightarrow> bool"
  | Cat regex regex
  | Or regex regex
  | Many regex

fun nullable :: "regex \<Rightarrow> bool" where
  "nullable Fail = False"
| "nullable Empty = True"
| "nullable (Class P) = False"
| "nullable (Cat r s) = (nullable r \<and> nullable s)"
| "nullable (Or r s) = (nullable r \<or> nullable s)"
| "nullable (Many r) = True"

fun deriv :: "char \<Rightarrow> regex \<Rightarrow> regex" where
  "deriv c Fail = Fail"
| "deriv c Empty = Fail"
| "deriv c (Class P) = (if P c then Empty else Fail)"
| "deriv c (Cat r s) =
     (if nullable r then Or (Cat (deriv c r) s) (deriv c s) else Cat (deriv c r) s)"
| "deriv c (Or r s) = Or (deriv c r) (deriv c s)"
| "deriv c (Many r) = Cat (deriv c r) (Many r)"

text \<open>The whole string is in the language of the expression.\<close>

fun fullmatch :: "regex \<Rightarrow> string \<Rightarrow> bool" where
  "fullmatch r [] = nullable r"
| "fullmatch r (c # cs) = fullmatch (deriv c r) cs"

text \<open>\<open>r+\<close> and \<open>r{2,}\<close>.\<close>

definition Plus :: "regex \<Rightarrow> regex" where
  "Plus r = Cat r (Many r)"

definition AtLeast2 :: "regex \<Rightarrow> regex" where
  "AtLeast2 r = Cat r (Cat r (Many r))"

text \<open>\<open>re.match('^' + r + '$', s) is not None\<close>: without \<open>re.MULTILINE\<close> the \<open>$\<close>
  matches at the end of the string and also just before a newline that ends it.\<close>

definition re_match_anchored :: "regex \<Rightarrow> string \<Rightarrow> bool" where
  "re_match_anchored r s =
     (fullmatch r s \<or> (s \<noteq> [] \<and> last s = CHR 0x0A \<and> fullmatch r (butlast s)))"

section \<open>routes/user.py: validation\<close>

definition alnum :: "char \<Rightarrow> bool" where
  "alnum c = (in_range CHR ''a'' CHR ''z'' c \<or> in_range CHR ''A'' CHR ''Z'' c
              \<or> in_range CHR ''0'' CHR ''9'' c)"

definition alpha :: "char \<Rightarrow> bool" where
  "alpha c = (in_range CHR ''a'' CHR ''z'' c \<or> in_range CHR ''A'' CHR ''Z'' c)"

text \<open>\<^verbatim>\<open>^[a-zA-Z0-9._%+-]+@[a-zA-Z0-9.-]+\.[a-zA-Z]{2,}$\<close>\<close>

definition pattern :: regex where
  "pattern =
     Cat (Plus (Class (\<lambda>c. alnum c \<or> c \<in> set ''._%+-'')))
    (Cat (Class (\<lambda>c. c = CHR ''@''))
    (Cat (Plus (Class (\<lambda>c. alnum c \<or> c \<in> set ''.-'')))
    (Cat (Class (\<lambda>c. c = CHR ''.''))
         (AtLeast2 (Class alpha)))))"

definition validate_email :: "string \<Rightarrow> bool" where
  "validate_email email = re_match_anchored pattern email"

text \<open>\<open>len(password)\<close>: defined on str, list and dict; a \<open>TypeError\<close> otherwise.\<close>

fun py_len :: "json \<Rightarrow> py_exc + nat" where
  "py_len (JStr s) = Inr (length s)"
| "py_len (JArr xs) = Inr (length xs)"
| "py_len (JObj kvs) = Inr (length (remdups (map fst kvs)))"
| "py_len _ = Inl TypeError"

definition validate_password :: "json \<Rightarrow> py_exc + (bool \<times> string)" where
  "validate_password password =
     (case py_len password of
        Inl e \<Rightarrow> Inl e
      | Inr n \<Rightarrow>
          if n < 6 then Inr (False, ''Password must be at least 6 characters long'')
          else Inr (True, ''Password is valid''))"

section \<open>models/user.py\<close>

record user =
  user_id :: nat
  name :: string
  email :: string
  password_hash :: string
  credits :: pynum
  plan_type :: string
  created_at :: "nat option"
  last_login :: "nat option"
  is_active :: bool

text \<open>
  What the code takes from outside the repository: werkzeug's password hashing, the
  clock, and Python's \<open>repr\<close> of a float (for the f-string of \<open>add_credits\<close>).
  \<open>generate_password_hash\<close> salts at random, so nothing is assumed of it; the theorems
  below hold for every choice of the four.
\<close>

record env =
  generate_password_hash :: "string \<Rightarrow> string"
  check_password_hash :: "string \<Rightarrow> string \<Rightarrow> bool"
  utcnow :: nat
  float_repr :: "pyfloat \<Rightarrow> string"

definition set_password :: "env \<Rightarrow> user \<Rightarrow> string \<Rightarrow> user" where
  "set_password en self password = self\<lparr>password_hash := generate_password_hash en password\<rparr>"

definition check_password :: "env \<Rightarrow> user \<Rightarrow> string \<Rightarrow> bool" where
  "check_password en self password = check_password_hash en (password_hash self) password"

text \<open>\<open>User.use_credit\<close>: the returned flag and the object after the call.\<close>

definition User_use_credit :: "user \<Rightarrow> py_exc + (bool \<times> user)" where
  "User_use_credit self =
     (if py_gt_zero (credits self)
      then (case py_sub (credits self) (PyInt 1) of
              Inl ex \<Rightarrow> Inl ex
            | Inr c \<Rightarrow> Inr (True, self\<lparr>credits := c\<rparr>))
      else Inr (False, self))"

definition User_add_credits :: "user \<Rightarrow> pynum \<Rightarrow> py_exc + user" where
  "User_add_credits self amount =
     (case py_add (credits self) amount of
        Inl ex \<Rightarrow> Inl ex
      | Inr c \<Rightarrow> Inr (self\<lparr>credits := c\<rparr>))"

definition iso_or_none :: "nat option \<Rightarrow> pyval" where
  "iso_or_none t = (case t of None \<Rightarrow> PNone | Some d \<Rightarrow> PIso d)"

definition to_dict :: "user \<Rightarrow> (string \<times> pyval) list" where
  "to_dict self =
     [(''id'', PInt (int (user_id self))),
      (''name'', PStr (name self)),
      (''email'', PStr (email self)),
      (''credits'', num_val (credits self)),
      (''plan_type'', PStr (plan_type self)),
      (''created_at'', iso_or_none (created_at self)),
      (''last_login'', iso_or_none (last_login self)),
      (''is_active'', PBool (is_active self))]"

subsection \<open>The user table\<close>

text \<open>
  The table is the list of its rows in insertion order. \<open>User.query.get\<close> reads by
  primary key, \<open>User.query.filter_by(email=...).first()\<close> takes the first row with
  that email. A commit of a changed object rewrites the row with its id and keeps
  the values as the handler set them; a commit of
  a new object fills in the column defaults (credits 100, plan \<open>free\<close>, created now,
  active), assigns the next id, and fails with \<open>IntegrityError\<close> when the email
  column's unique constraint is violated.
\<close>

type_synonym store = "user list"

definition query_get :: "store \<Rightarrow> nat \<Rightarrow> user option" where
  "query_get st i = find (\<lambda>u. user_id u = i) st"

definition query_filter_by_email :: "store \<Rightarrow> string \<Rightarrow> user option" where
  "query_filter_by_email st e = find (\<lambda>u. email u = e) st"

definition db_commit :: "store \<Rightarrow> user \<Rightarrow> store" where
  "db_commit st u' = map (\<lambda>u. if user_id u = user_id u' then u' else u) st"

definition next_id :: "store \<Rightarrow> nat" where
  "next_id st = Suc (fold max (map user_id st) 0)"

text \<open>\<open>User(name=name, email=email)\<close>, with the column defaults the insert fills in;
  the id and \<open>created_at\<close> are set by \<open>db_add_commit\<close>.\<close>

definition User_init :: "string \<Rightarrow> string \<Rightarrow> user" where
  "User_init n e =
     \<lparr>user_id = 0, name = n, email = e, password_hash = [],
      credits = PyInt 100, plan_type = ''free'', created_at = None,
      last_login = None, is_active = True\<rparr>"

definition db_add_commit :: "env \<Rightarrow> store \<Rightarrow> user \<Rightarrow> py_exc + (user \<times> store)" where
  "db_add_commit en st u =
     (if list_ex (\<lambda>v. email v = email u) st then Inl IntegrityError
      else let u' = u\<lparr>user_id := next_id st, created_at := Some (utcnow en)\<rparr>
           in Inr (u', st @ [u']))"

section \<open>routes/user.py: handlers\<close>

text \<open>
  A handler takes the table and the parsed body and returns the pair
  \<open>(jsonify body, status)\<close> with the table after the request. Each \<open>*_try\<close>
  function is the body of the handler's \<open>try\<close>; an exception is \<open>Inl\<close>, and the
  handler turns it into the 500 response on the table as it was (rollback).
\<close>

definition error_body :: "string \<Rightarrow> (string \<times> pyval) list" where
  "error_body msg = [(''error'', PStr msg)]"

definition required_fields :: "string list" where
  "required_fields = [''name'', ''email'', ''password'']"

text \<open>The loop over \<open>required_fields\<close>: the first field whose value is falsy.\<close>

fun first_missing :: "(string \<times> json) list \<Rightarrow> string list \<Rightarrow> string option" where
  "first_missing data [] = None"
| "first_missing data (field # more_fields) =
     (if \<not> truthy (dict_get data field) then Some field else first_missing data more_fields)"

definition register_try :: "env \<Rightarrow> store \<Rightarrow> json \<Rightarrow> py_exc + (response \<times> store)" where
  "register_try en st body =
     (case body of
        JObj data \<Rightarrow>
          (case first_missing data required_fields of
             Some field \<Rightarrow> Inr ((error_body (field @ '' is required''), 400), st)
           | None \<Rightarrow>
               (case dict_get data ''name'' of
                  JStr name_raw \<Rightarrow>
                    (case dict_get data ''email'' of
                       JStr email_raw \<Rightarrow>
                         (let n = py_strip name_raw;
                              e = py_lower (py_strip email_raw);
                              password = dict_get data ''password''
                          in if \<not> validate_email e
                             then Inr ((error_body ''Invalid email format'', 400), st)
                             else
                               (case validate_password password of
                                  Inl ex \<Rightarrow> Inl ex
                                | Inr (is_valid, message) \<Rightarrow>
                                    if \<not> is_valid then Inr ((error_body message, 400), st)
                                    else
                                      (case query_filter_by_email st e of
                                         Some existing_user \<Rightarrow>
                                           Inr ((error_body ''Email already registered'', 409), st)
                                       | None \<Rightarrow>
                                           (case password of
                                              JStr pw \<Rightarrow>
                                                (case db_add_commit en st
                                                        (set_password en (User_init n e) pw) of
                                                   Inl ex \<Rightarrow> Inl ex
                                                 | Inr (u, st') \<Rightarrow>
                                                     Inr (([(''message'', PStr ''Account created successfully''),
                                                            (''user'', PDict (to_dict u))], 201), st'))
                                            | _ \<Rightarrow> Inl AttributeError))))
                     | _ \<Rightarrow> Inl AttributeError)
                | _ \<Rightarrow> Inl AttributeError))
      | _ \<Rightarrow> Inl AttributeError)"

definition register :: "env \<Rightarrow> store \<Rightarrow> json \<Rightarrow> response \<times> store" where
  "register en st body =
     (case register_try en st body of
        Inl ex \<Rightarrow> ((error_body ''Registration failed'', 500), st)
      | Inr r \<Rightarrow> r)"

definition login_try :: "env \<Rightarrow> store \<Rightarrow> json \<Rightarrow> py_exc + (response \<times> store)" where
  "login_try en st body =
     (case body of
        JObj data \<Rightarrow>
          if \<not> truthy (dict_get data ''email'') \<or> \<not> truthy (dict_get data ''password'')
          then Inr ((error_body ''Email and password are required'', 400), st)
          else
            (case dict_get data ''email'' of
               JStr email_raw \<Rightarrow>
                 (let e = py_lower (py_strip email_raw);
                      password = dict_get data ''password''
                  in case query_filter_by_email st e of
                       None \<Rightarrow> Inr ((error_body ''Invalid email or password'', 401), st)
                     | Some u \<Rightarrow>
                         (case password of
                            JStr pw \<Rightarrow>
                              if \<not> check_password en u pw
                              then Inr ((error_body ''Invalid email or password'', 401), st)
                              else if \<not> is_active u
                              then Inr ((error_body ''Account is deactivated'', 401), st)
                              else
                                (let u' = u\<lparr>last_login := Some (utcnow en)\<rparr>
                                 in Inr (([(''message'', PStr ''Login successful''),
                                           (''user'', PDict (to_dict u'))], 200),
                                         db_commit st u'))
                          | _ \<Rightarrow> Inl TypeError))
             | _ \<Rightarrow> Inl AttributeError)
      | _ \<Rightarrow> Inl AttributeError)"

definition login :: "env \<Rightarrow> store \<Rightarrow> json \<Rightarrow> response \<times> store" where
  "login en st body =
     (case login_try en st body of
        Inl ex \<Rightarrow> ((error_body ''Login failed'', 500), st)
      | Inr r \<Rightarrow> r)"

definition get_profile :: "store \<Rightarrow> nat \<Rightarrow> response \<times> store" where
  "get_profile st uid =
     (case query_get st uid of
        None \<Rightarrow> ((error_body ''User not found'', 404), st)
      | Some u \<Rightarrow> (([(''user'', PDict (to_dict u))], 200), st))"

definition use_credit_try :: "store \<Rightarrow> nat \<Rightarrow> py_exc + (response \<times> store)" where
  "use_credit_try st uid =
     (case query_get st uid of
        None \<Rightarrow> Inr ((error_body ''User not found'', 404), st)
      | Some u \<Rightarrow>
          (case User_use_credit u of
             Inl ex \<Rightarrow> Inl ex
           | Inr (True, u') \<Rightarrow>
               Inr (([(''message'', PStr ''Credit used successfully''),
                      (''remaining_credits'', num_val (credits u'))], 200),
                    db_commit st u')
           | Inr (False, u') \<Rightarrow> Inr ((error_body ''No credits remaining'', 400), st)))"

definition use_credit :: "store \<Rightarrow> nat \<Rightarrow> response \<times> store" where
  "use_credit st uid =
     (case use_credit_try st uid of
        Inl ex \<Rightarrow> ((error_body ''Failed to use credit'', 500), st)
      | Inr r \<Rightarrow> r)"

text \<open>\<open>amount <= 0\<close>, \<open>credits += amount\<close> and \<open>f'{amount}'\<close> on what \<open>data.get('amount', 0)\<close>
  gave: an int, a float, or a bool (Python's \<open>True == 1\<close>); comparing anything else
  with 0 raises \<open>TypeError\<close>. Nothing tests that the amount is an int.\<close>

fun py_le_zero :: "json \<Rightarrow> py_exc + bool" where
  "py_le_zero (JInt n) = Inr (n \<le> 0)"
| "py_le_zero (JFloat x) = Inr (float_le_zero x)"
| "py_le_zero (JBool b) = Inr (\<not> b)"
| "py_le_zero _ = Inl TypeError"

fun py_num_value :: "json \<Rightarrow> pynum" where
  "py_num_value (JInt n) = PyInt n"
| "py_num_value (JFloat x) = PyFloat x"
| "py_num_value (JBool b) = PyInt (if b then 1 else 0)"
| "py_num_value _ = PyInt 0"

fun py_format :: "env \<Rightarrow> json \<Rightarrow> string" where
  "py_format en (JInt n) = py_str_int n"
| "py_format en (JFloat x) = float_repr en x"
| "py_format en (JBool b) = (if b then ''True'' else ''False'')"
| "py_format en _ = []"

definition add_credits_try ::
  "env \<Rightarrow> store \<Rightarrow> nat \<Rightarrow> json \<Rightarrow> py_exc + (response \<times> store)" where
  "add_credits_try en st uid body =
     (case body of
        JObj data \<Rightarrow>
          (let amount = dict_get_default data ''amount'' (JInt 0)
           in case py_le_zero amount of
                Inl ex \<Rightarrow> Inl ex
              | Inr True \<Rightarrow> Inr ((error_body ''Invalid credit amount'', 400), st)
              | Inr False \<Rightarrow>
                  (case query_get st uid of
                     None \<Rightarrow> Inr ((error_body ''User not found'', 404), st)
                   | Some u \<Rightarrow>
                       (case User_add_credits u (py_num_value amount) of
                          Inl ex \<Rightarrow> Inl ex
                        | Inr u' \<Rightarrow>
                            Inr (([(''message'',
                                    PStr (py_format en amount @ '' credits added successfully'')),
                                   (''total_credits'', num_val (credits u'))], 200),
                                 db_commit st u'))))
      | _ \<Rightarrow> Inl AttributeError)"

definition add_credits :: "env \<Rightarrow> store \<Rightarrow> nat \<Rightarrow> json \<Rightarrow> response \<times> store" where
  "add_credits en st uid body =
     (case add_credits_try en st uid body of
        Inl ex \<Rightarrow> ((error_body ''Failed to add credits'', 500), st)
      | Inr r \<Rightarrow> r)"

definition check_credits :: "store \<Rightarrow> nat \<Rightarrow> response \<times> store" where
  "check_credits st uid =
     (case query_get st uid of
        None \<Rightarrow> ((error_body ''User not found'', 404), st)
      | Some u \<Rightarrow>
          (([(''user_id'', PInt (int (user_id u))),
             (''credits'', num_val (credits u)),
             (''plan_type'', PStr (plan_type u))], 200), st))"

definition upgrade_plan_try :: "store \<Rightarrow> nat \<Rightarrow> json \<Rightarrow> py_exc + (response \<times> store)" where
  "upgrade_plan_try st uid body =
     (case body of
        JObj data \<Rightarrow>
          (case dict_get_default data ''plan_type'' (JStr []) of
             JStr plan_raw \<Rightarrow>
               (let new_plan = py_lower plan_raw
                in if new_plan \<notin> set [''free'', ''pro'', ''premium'']
                   then Inr ((error_body ''Invalid plan type'', 400), st)
                   else
                     (case query_get st uid of
                        None \<Rightarrow> Inr ((error_body ''User not found'', 404), st)
                      | Some u \<Rightarrow>
                          (let u1 = u\<lparr>plan_type := new_plan\<rparr>
                           in case (if new_plan = ''pro'' then User_add_credits u1 (PyInt 500)
                                    else if new_plan = ''premium''
                                    then User_add_credits u1 (PyInt 1000)
                                    else Inr u1) of
                                Inl ex \<Rightarrow> Inl ex
                              | Inr u2 \<Rightarrow>
                                  Inr (([(''message'', PStr (''Plan upgraded to '' @ new_plan)),
                                         (''user'', PDict (to_dict u2))], 200),
                                       db_commit st u2))))
           | _ \<Rightarrow> Inl AttributeError)
      | _ \<Rightarrow> Inl AttributeError)"

definition upgrade_plan :: "store \<Rightarrow> nat \<Rightarrow> json \<Rightarrow> response \<times> store" where
  "upgrade_plan st uid body =
     (case upgrade_plan_try st uid body of
        Inl ex \<Rightarrow> ((error_body ''Failed to upgrade plan'', 500), st)
      | Inr r \<Rightarrow> r)"

subsection \<open>Requests in sequence\<close>

datatype request =
    Register json
  | Login json
  | GetProfile nat
  | UseCredit nat
  | AddCredits nat json
  | CheckCredits nat
  | UpgradePlan nat json

fun handle :: "env \<Rightarrow> store \<Rightarrow> request \<Rightarrow> response \<times> store" where
  "handle en st (Register body) = register en st body"
| "handle en st (Login body) = login en st body"
| "handle en st (GetProfile uid) = get_profile st uid"
| "handle en st (UseCredit uid) = use_credit st uid"
| "handle en st (AddCredits uid body) = add_credits en st uid body"
| "handle en st (CheckCredits uid) = check_credits st uid"
| "handle en st (UpgradePlan uid body) = upgrade_plan st uid body"

text \<open>The table after a sequence of requests, each with its own clock and salts.\<close>

fun run :: "store \<Rightarrow> (env \<times> request) list \<Rightarrow> store" where
  "run st [] = st"
| "run st ((en, rq) # rest) = run (snd (handle en st rq)) rest"

subsection \<open>Example data\<close>

text \<open>A stand-in for the password hashing, a clock reading, \<open>repr\<close> on the one float
  the examples format, one account and two request bodies, for evaluating the handlers
  on concrete inputs.\<close>

definition demo_hash :: "string \<Rightarrow> string" where
  "demo_hash p = ''sha$'' @ p"

definition demo_check :: "string \<Rightarrow> string \<Rightarrow> bool" where
  "demo_check h p = (h = demo_hash p)"

fun demo_repr :: "pyfloat \<Rightarrow> string" where
  "demo_repr (Dbl r) = (if r = 1 / 2 then ''0.5'' else ''0.0'')"
| "demo_repr PosInf = ''inf''"
| "demo_repr NegInf = ''-inf''"
| "demo_repr NaN = ''nan''"

definition demo_env :: env where
  "demo_env = \<lparr>generate_password_hash = demo_hash, check_password_hash = demo_check, utcnow = 7,
                float_repr = demo_repr\<rparr>"

definition demo_user :: "int \<Rightarrow> bool \<Rightarrow> user" where
  "demo_user c a =
     \<lparr>user_id = 1, name = ''Ann'', email = ''ann@test.com'', password_hash = ''sha$secret1'',
      credits = PyInt c, plan_type = ''free'', created_at = Some 7, last_login = None, is_active = a\<rparr>"

definition registration :: "string \<Rightarrow> string \<Rightarrow> string \<Rightarrow> json" where
  "registration n e p = JObj [(''name'', JStr n), (''email'', JStr e), (''password'', JStr p)]"

definition credentials :: "string \<Rightarrow> string \<Rightarrow> json" where
  "credentials e p = JObj [(''email'', JStr e), (''password'', JStr p)]"

subsection \<open>Integer credits\<close>

text \<open>Credits that are a non-negative int, and a grant whose amount is a float.\<close>

fun nonneg_int :: "pynum \<Rightarrow> bool" where
  "nonneg_int (PyInt c) = (0 \<le> c)"
| "nonneg_int (PyFloat x) = False"

fun float_amount :: "request \<Rightarrow> bool" where
  "float_amount (AddCredits uid (JObj data)) =
     (case dict_get_default data ''amount'' (JInt 0) of JFloat x \<Rightarrow> True | _ \<Rightarrow> False)"
| "float_amount _ = False"

section \<open>The user table: reads after writes\<close>


lemma query_get_commit_other:
  "i \<noteq> user_id u' \<Longrightarrow> query_get (db_commit st u') i = query_get st i"
  unfolding query_get_def db_commit_def
  by (induction st) auto

lemma query_get_SomeD:
  "query_get st i = Some u \<Longrightarrow> u \<in> set st \<and> user_id u = i"
  unfolding query_get_def by (auto simp: find_Some_iff)

lemma set_db_commit: "set (db_commit st u') \<subseteq> insert u' (set st)"
  unfolding db_commit_def by auto

section \<open>Credit consumption\<close>



section \<open>Credit grant\<close>



section \<open>Plan upgrade\<close>



section \<open>Login\<close>

lemma norm_ann: "py_lower (py_strip ''ann@test.com'') = ''ann@test.com''"
  by code_simp

lemma norm_nobody: "py_lower (py_strip ''nobody@test.com'') = ''nobody@test.com''"
  by code_simp

text \<open>
  C10. Every login answers 200, 400, 401 or 500, and every login that does not answer
  200 (missing field, unknown email, wrong password, deactivated account, or an
  exception) leaves the table exactly as it was: no row changes, so \<open>last_login\<close> is
  written only by a successful login.
\<close>

theorem login_failure_keeps_table:
  "snd (fst (login en st body)) \<in> {200, 400, 401, 500}
   \<and> (snd (fst (login en st body)) \<noteq> 200 \<longrightarrow> snd (login en st body) = st)"
  by (auto simp: login_def login_try_def Let_def
           split: json.splits option.splits sum.splits if_splits)

text \<open>A wrong password: 401, and the row, with no \<open>last_login\<close>, is untouched.\<close>

theorem login_failure_keeps_table_witness:
  "snd (fst (login demo_env [demo_user 5 True] (credentials ''ann@test.com'' ''wrong''))) = 401
   \<and> snd (login demo_env [demo_user 5 True] (credentials ''ann@test.com'' ''wrong''))
       = [demo_user 5 True]
   \<and> last_login (demo_user 5 True) = None"
proof -
  have "fst (login demo_env [demo_user 5 True] (credentials ''ann@test.com'' ''wrong''))
          = (error_body ''Invalid email or password'', 401)"
    by (simp add: login_def login_try_def credentials_def dict_get_def dict_get_default_def
          norm_ann query_filter_by_email_def demo_user_def check_password_def demo_env_def
          demo_check_def demo_hash_def)
  then show ?thesis
    using login_failure_keeps_table
            [of demo_env "[demo_user 5 True]" "credentials ''ann@test.com'' ''wrong''"]
    by (simp add: demo_user_def)
qed

text \<open>
  The claim that a deactivated account with the correct password gets the same
  response as a wrong password or an unknown email fails: the status is the same,
  the message is not.
\<close>

theorem login_deactivated_counterexample:
  "query_filter_by_email [demo_user 5 False] ''ann@test.com'' = Some (demo_user 5 False)
   \<and> \<not> is_active (demo_user 5 False)
   \<and> check_password demo_env (demo_user 5 False) ''secret1''
   \<and> \<not> check_password demo_env (demo_user 5 False) ''wrong''
   \<and> query_filter_by_email [demo_user 5 False] ''nobody@test.com'' = None
   \<and> fst (login demo_env [demo_user 5 False] (credentials ''ann@test.com'' ''secret1''))
       = ([(''error'', PStr ''Account is deactivated'')], 401)
   \<and> fst (login demo_env [demo_user 5 False] (credentials ''ann@test.com'' ''wrong''))
       = ([(''error'', PStr ''Invalid email or password'')], 401)
   \<and> fst (login demo_env [demo_user 5 False] (credentials ''nobody@test.com'' ''secret1''))
       = ([(''error'', PStr ''Invalid email or password'')], 401)
   \<and> fst (login demo_env [demo_user 5 False] (credentials ''ann@test.com'' ''secret1''))
       \<noteq> fst (login demo_env [demo_user 5 False] (credentials ''ann@test.com'' ''wrong''))
   \<and> fst (login demo_env [demo_user 5 False] (credentials ''ann@test.com'' ''secret1''))
       \<noteq> fst (login demo_env [demo_user 5 False] (credentials ''nobody@test.com'' ''secret1''))"
  by (simp add: login_def login_try_def credentials_def dict_get_def dict_get_default_def
        norm_ann norm_nobody query_filter_by_email_def demo_user_def check_password_def
        demo_env_def demo_check_def demo_hash_def error_body_def)

text \<open>
  A password that is not a string (here the number 1) on a registered email raises
  inside \<open>check_password\<close> and ends in 500 \<open>Login failed\<close>, while on an unknown email
  the lookup fails first and the answer is the generic 401.
\<close>

lemma login_non_string_password:
  "fst (login demo_env [demo_user 5 True]
          (JObj [(''email'', JStr ''ann@test.com''), (''password'', JInt 1)]))
     = ([(''error'', PStr ''Login failed'')], 500)
   \<and> fst (login demo_env [demo_user 5 True]
          (JObj [(''email'', JStr ''nobody@test.com''), (''password'', JInt 1)]))
     = ([(''error'', PStr ''Invalid email or password'')], 401)"
  by (simp add: login_def login_try_def dict_get_def dict_get_default_def norm_ann norm_nobody
        query_filter_by_email_def demo_user_def error_body_def)

text \<open>
  C3 (amended). For a login whose email is a non-empty string and whose password is
  present: an unknown email gets 401 \<open>Invalid email or password\<close>, whatever the password
  value is; an existing account with a string password that does not verify gets the
  same response; an existing deactivated account with a string password that
  verifies gets the same status 401 with the message \<open>Account is deactivated\<close>. None of
  them changes the table.
\<close>

theorem login_rejections:
  assumes "dict_get data ''email'' = JStr e" and "e \<noteq> []"
      and "truthy (dict_get data ''password'')"
  shows "(query_filter_by_email st (py_lower (py_strip e)) = None \<longrightarrow>
            login en st (JObj data) = ((error_body ''Invalid email or password'', 401), st))
       \<and> (\<forall>u p. query_filter_by_email st (py_lower (py_strip e)) = Some u
                \<and> dict_get data ''password'' = JStr p \<and> \<not> check_password en u p \<longrightarrow>
            login en st (JObj data) = ((error_body ''Invalid email or password'', 401), st))
       \<and> (\<forall>u p. query_filter_by_email st (py_lower (py_strip e)) = Some u
                \<and> dict_get data ''password'' = JStr p \<and> check_password en u p
                \<and> \<not> is_active u \<longrightarrow>
            login en st (JObj data) = ((error_body ''Account is deactivated'', 401), st))"
  using assms by (auto simp: login_def login_try_def Let_def)

text \<open>The three rejections on a table holding one deactivated account, and an unknown
  email with a password that is not a string.\<close>

theorem login_rejections_witness:
  "dict_get [(''email'', JStr ''ann@test.com''), (''password'', JStr ''secret1'')] ''email''
      = JStr ''ann@test.com''
   \<and> truthy (dict_get [(''email'', JStr ''ann@test.com''), (''password'', JStr ''secret1'')]
               ''password'')
   \<and> query_filter_by_email [demo_user 5 False] (py_lower (py_strip ''ann@test.com''))
      = Some (demo_user 5 False)
   \<and> check_password demo_env (demo_user 5 False) ''secret1''
   \<and> \<not> is_active (demo_user 5 False)
   \<and> login demo_env [demo_user 5 False] (credentials ''ann@test.com'' ''secret1'')
      = ((error_body ''Account is deactivated'', 401), [demo_user 5 False])
   \<and> \<not> check_password demo_env (demo_user 5 False) ''wrong''
   \<and> login demo_env [demo_user 5 False] (credentials ''ann@test.com'' ''wrong'')
      = ((error_body ''Invalid email or password'', 401), [demo_user 5 False])
   \<and> query_filter_by_email [demo_user 5 False] (py_lower (py_strip ''nobody@test.com'')) = None
   \<and> login demo_env [demo_user 5 False] (credentials ''nobody@test.com'' ''secret1'')
      = ((error_body ''Invalid email or password'', 401), [demo_user 5 False])
   \<and> truthy (dict_get [(''email'', JStr ''nobody@test.com''), (''password'', JInt 1)]
               ''password'')
   \<and> login demo_env [demo_user 5 False]
        (JObj [(''email'', JStr ''nobody@test.com''), (''password'', JInt 1)])
      = ((error_body ''Invalid email or password'', 401), [demo_user 5 False])"
proof -
  have q: "query_filter_by_email [demo_user 5 False] (py_lower (py_strip ''ann@test.com''))
             = Some (demo_user 5 False)"
    and n: "query_filter_by_email [demo_user 5 False] (py_lower (py_strip ''nobody@test.com''))
             = None"
    by (simp_all add: norm_ann norm_nobody query_filter_by_email_def demo_user_def)
  have c: "check_password demo_env (demo_user 5 False) ''secret1''"
    and w: "\<not> check_password demo_env (demo_user 5 False) ''wrong''"
    and i: "\<not> is_active (demo_user 5 False)"
    by (simp_all add: check_password_def demo_env_def demo_check_def demo_hash_def demo_user_def)
  have 1: "login demo_env [demo_user 5 False] (credentials ''ann@test.com'' ''secret1'')
      = ((error_body ''Account is deactivated'', 401), [demo_user 5 False])"
    using login_rejections [of "[(''email'', JStr ''ann@test.com''), (''password'', JStr ''secret1'')]"
            "''ann@test.com''" "[demo_user 5 False]" demo_env] q c i
    by (simp add: dict_get_def dict_get_default_def credentials_def)
  have 2: "login demo_env [demo_user 5 False] (credentials ''ann@test.com'' ''wrong'')
      = ((error_body ''Invalid email or password'', 401), [demo_user 5 False])"
    using login_rejections [of "[(''email'', JStr ''ann@test.com''), (''password'', JStr ''wrong'')]"
            "''ann@test.com''" "[demo_user 5 False]" demo_env] q w
    by (simp add: dict_get_def dict_get_default_def credentials_def)
  have 3: "login demo_env [demo_user 5 False] (credentials ''nobody@test.com'' ''secret1'')
      = ((error_body ''Invalid email or password'', 401), [demo_user 5 False])"
    using login_rejections [of "[(''email'', JStr ''nobody@test.com''), (''password'', JStr ''secret1'')]"
            "''nobody@test.com''" "[demo_user 5 False]" demo_env] n
    by (simp add: dict_get_def dict_get_default_def credentials_def)
  have 4: "login demo_env [demo_user 5 False]
        (JObj [(''email'', JStr ''nobody@test.com''), (''password'', JInt 1)])
      = ((error_body ''Invalid email or password'', 401), [demo_user 5 False])"
    using login_rejections [of "[(''email'', JStr ''nobody@test.com''), (''password'', JInt 1)]"
            "''nobody@test.com''" "[demo_user 5 False]" demo_env] n
    by (simp add: dict_get_def dict_get_default_def)
  show ?thesis using q n c w i 1 2 3 4 by (simp add: dict_get_def dict_get_default_def)
qed

section \<open>Registration\<close>

lemma validate_email_empty: "\<not> validate_email []"
  by (simp add: validate_email_def re_match_anchored_def pattern_def Plus_def)

lemma first_missing_none:
  "truthy (dict_get data ''name'') \<Longrightarrow> truthy (dict_get data ''email'')
   \<Longrightarrow> truthy (dict_get data ''password'')
   \<Longrightarrow> first_missing data required_fields = None"
  by (simp add: required_fields_def)

lemma filter_by_email_None:
  "query_filter_by_email st e = None \<longleftrightarrow> \<not> list_ex (\<lambda>v. email v = e) st"
  by (auto simp: query_filter_by_email_def find_None_iff list_ex_iff)

lemma filter_by_email_append:
  "query_filter_by_email st e = None \<Longrightarrow> email u = e
   \<Longrightarrow> query_filter_by_email (st @ [u]) e = Some u
       \<and> filter (\<lambda>v. email v = e) (st @ [u]) = [u]"
  unfolding query_filter_by_email_def
  by (induction st) (auto split: if_splits)

lemma register_valid:
  assumes "map_of data ''name'' = Some (JStr n)" and "n \<noteq> []"
      and "map_of data ''email'' = Some (JStr e)"
      and "map_of data ''password'' = Some (JStr p)"
      and "validate_email (py_lower (py_strip e))"
      and "6 \<le> length p"
      and "query_filter_by_email st (py_lower (py_strip e)) = None"
  shows "register en st (JObj data) =
           (([(''message'', PStr ''Account created successfully''),
              (''user'', PDict (to_dict
                 \<lparr>user_id = next_id st, name = py_strip n, email = py_lower (py_strip e),
                  password_hash = generate_password_hash en p, credits = PyInt 100,
                  plan_type = ''free'', created_at = Some (utcnow en), last_login = None,
                  is_active = True\<rparr>))], 201),
            st @ [\<lparr>user_id = next_id st, name = py_strip n, email = py_lower (py_strip e),
                  password_hash = generate_password_hash en p, credits = PyInt 100,
                  plan_type = ''free'', created_at = Some (utcnow en), last_login = None,
                  is_active = True\<rparr>])"
proof -
  have e: "e \<noteq> []"
    using assms(5) validate_email_empty by (auto simp: py_strip_def py_lower_def)
  have p: "p \<noteq> []" using assms(6) by auto
  have miss: "first_missing data required_fields = None"
    using assms(1-4) e p by (simp add: first_missing_none dict_get_def dict_get_default_def)
  have fresh: "\<not> list_ex (\<lambda>v. email v = py_lower (py_strip e)) st"
    using assms(7) by (simp add: filter_by_email_None)
  show ?thesis
    using assms miss fresh
    by (simp add: register_def register_try_def dict_get_def dict_get_default_def Let_def
          validate_password_def db_add_commit_def set_password_def User_init_def)
qed

lemma register_conflict:
  assumes "map_of data ''name'' = Some (JStr n)" and "n \<noteq> []"
      and "map_of data ''email'' = Some (JStr e)"
      and "map_of data ''password'' = Some (JStr p)"
      and "validate_email (py_lower (py_strip e))"
      and "6 \<le> length p"
      and "query_filter_by_email st (py_lower (py_strip e)) = Some v"
  shows "register en st (JObj data) = ((error_body ''Email already registered'', 409), st)"
proof -
  have e: "e \<noteq> []"
    using assms(5) validate_email_empty by (auto simp: py_strip_def py_lower_def)
  have p: "p \<noteq> []" using assms(6) by auto
  have miss: "first_missing data required_fields = None"
    using assms(1-4) e p by (simp add: first_missing_none dict_get_def dict_get_default_def)
  show ?thesis
    using assms miss
    by (simp add: register_def register_try_def dict_get_def dict_get_default_def Let_def
          validate_password_def)
qed

lemma norm_ANN: "py_lower (py_strip ''ANN@Test.com'') = ''ann@test.com''"
  by code_simp

lemma norm_ann_padded: "py_lower (py_strip '' ann@test.com '') = ''ann@test.com''"
  by code_simp

lemma valid_ann: "validate_email ''ann@test.com''"
  by code_simp

lemma strip_Ann: "py_strip ''Ann'' = ''Ann''"
  by code_simp

text \<open>
  C2. For a registration whose name, email and password are strings, with a non-empty
  name, an email that matches the pattern once trimmed and lowercased, a password of
  at least 6 characters, and no row with that email yet: the handler answers 201 with
  the public view of a new row that is appended to the table; that row has 100
  credits, plan \<open>free\<close>, is active, and its password hash is
  \<open>generate_password_hash\<close> of the given password.
\<close>

theorem register_creates_free_account:
  assumes "map_of data ''name'' = Some (JStr n)" and "n \<noteq> []"
      and "map_of data ''email'' = Some (JStr e)"
      and "map_of data ''password'' = Some (JStr p)"
      and "validate_email (py_lower (py_strip e))"
      and "6 \<le> length p"
      and "query_filter_by_email st (py_lower (py_strip e)) = None"
  shows "\<exists>u. register en st (JObj data) =
              (([(''message'', PStr ''Account created successfully''),
                 (''user'', PDict (to_dict u))], 201), st @ [u])
           \<and> credits u = PyInt 100 \<and> plan_type u = ''free'' \<and> is_active u
           \<and> password_hash u = generate_password_hash en p
           \<and> name u = py_strip n \<and> email u = py_lower (py_strip e)"
  using register_valid [OF assms, of en] by simp

text \<open>Ann's registration on an empty table.\<close>

theorem register_creates_free_account_witness:
  "map_of [(''name'', JStr ''Ann''), (''email'', JStr ''ANN@Test.com''),
           (''password'', JStr ''secret1'')] ''email'' = Some (JStr ''ANN@Test.com'')
   \<and> validate_email (py_lower (py_strip ''ANN@Test.com''))
   \<and> 6 \<le> length ''secret1''
   \<and> query_filter_by_email [] (py_lower (py_strip ''ANN@Test.com'')) = None
   \<and> (\<exists>u. register demo_env [] (registration ''Ann'' ''ANN@Test.com'' ''secret1'') =
              (([(''message'', PStr ''Account created successfully''),
                 (''user'', PDict (to_dict u))], 201), [u])
           \<and> credits u = PyInt 100 \<and> plan_type u = ''free'' \<and> is_active u
           \<and> password_hash u = ''sha$secret1''
           \<and> name u = ''Ann'' \<and> email u = ''ann@test.com'')"
  using register_creates_free_account
          [of "[(''name'', JStr ''Ann''), (''email'', JStr ''ANN@Test.com''),
                (''password'', JStr ''secret1'')]"
              "''Ann''" "''ANN@Test.com''" "''secret1''" "[]" demo_env]
  by (simp add: norm_ANN valid_ann strip_Ann query_filter_by_email_def registration_def
        demo_env_def demo_hash_def)

text \<open>
  C6. Two valid registrations, one after the other, whose emails are equal once
  trimmed and lowercased, on a table without that email: the first answers 201, the
  second answers 409 \<open>Email already registered\<close> and changes nothing, and the table
  then holds exactly one row with that email.
\<close>

theorem register_same_email_twice:
  assumes "map_of data1 ''name'' = Some (JStr n1)" and "n1 \<noteq> []"
      and "map_of data1 ''email'' = Some (JStr e1)"
      and "map_of data1 ''password'' = Some (JStr p1)" and "6 \<le> length p1"
      and "map_of data2 ''name'' = Some (JStr n2)" and "n2 \<noteq> []"
      and "map_of data2 ''email'' = Some (JStr e2)"
      and "map_of data2 ''password'' = Some (JStr p2)" and "6 \<le> length p2"
      and "py_lower (py_strip e1) = py_lower (py_strip e2)"
      and "validate_email (py_lower (py_strip e1))"
      and "query_filter_by_email st (py_lower (py_strip e1)) = None"
  shows "snd (fst (register en1 st (JObj data1))) = 201
       \<and> register en2 (snd (register en1 st (JObj data1))) (JObj data2) =
           ((error_body ''Email already registered'', 409), snd (register en1 st (JObj data1)))
       \<and> length (filter (\<lambda>u. email u = py_lower (py_strip e1))
                   (snd (register en2 (snd (register en1 st (JObj data1))) (JObj data2)))) = 1"
proof -
  let ?e = "py_lower (py_strip e1)"
  let ?u = "\<lparr>user_id = next_id st, name = py_strip n1, email = ?e,
             password_hash = generate_password_hash en1 p1, credits = PyInt 100,
             plan_type = ''free'', created_at = Some (utcnow en1), last_login = None,
             is_active = True\<rparr>"
  have first: "snd (fst (register en1 st (JObj data1))) = 201"
    and st1: "snd (register en1 st (JObj data1)) = st @ [?u]"
    using register_valid [OF assms(1-4) assms(12) assms(5) assms(13), of en1] by simp_all
  have found: "query_filter_by_email (st @ [?u]) ?e = Some ?u"
    and one: "filter (\<lambda>v. email v = ?e) (st @ [?u]) = [?u]"
    using filter_by_email_append [OF assms(13), of ?u] by simp_all
  have second: "register en2 (st @ [?u]) (JObj data2) =
                  ((error_body ''Email already registered'', 409), st @ [?u])"
    using register_conflict [OF assms(6-9) _ assms(10), of "st @ [?u]" ?u en2]
          found assms(11,12) by simp
  show ?thesis
    using first st1 second one by simp
qed

text \<open>\<open>ANN@Test.com\<close> first, then \<open>ann@test.com\<close> with spaces around it.\<close>

theorem register_same_email_twice_witness:
  "py_lower (py_strip ''ANN@Test.com'') = py_lower (py_strip '' ann@test.com '')
   \<and> validate_email (py_lower (py_strip ''ANN@Test.com''))
   \<and> query_filter_by_email [] (py_lower (py_strip ''ANN@Test.com'')) = None
   \<and> snd (fst (register demo_env [] (registration ''Ann'' ''ANN@Test.com'' ''secret1''))) = 201
   \<and> register demo_env
        (snd (register demo_env [] (registration ''Ann'' ''ANN@Test.com'' ''secret1'')))
        (registration ''Anna'' '' ann@test.com '' ''secret2'')
       = ((error_body ''Email already registered'', 409),
          snd (register demo_env [] (registration ''Ann'' ''ANN@Test.com'' ''secret1'')))
   \<and> length (filter (\<lambda>u. email u = py_lower (py_strip ''ANN@Test.com''))
        (snd (register demo_env
               (snd (register demo_env [] (registration ''Ann'' ''ANN@Test.com'' ''secret1'')))
               (registration ''Anna'' '' ann@test.com '' ''secret2'')))) = 1"
proof -
  have same: "py_lower (py_strip ''ANN@Test.com'') = py_lower (py_strip '' ann@test.com '')"
    by (simp add: norm_ANN norm_ann_padded)
  have valid: "validate_email (py_lower (py_strip ''ANN@Test.com''))"
    by (simp add: norm_ANN valid_ann)
  have fresh: "query_filter_by_email [] (py_lower (py_strip ''ANN@Test.com'')) = None"
    by (simp add: query_filter_by_email_def)
  have twice:
    "snd (fst (register demo_env [] (registration ''Ann'' ''ANN@Test.com'' ''secret1''))) = 201
     \<and> register demo_env
          (snd (register demo_env [] (registration ''Ann'' ''ANN@Test.com'' ''secret1'')))
          (registration ''Anna'' '' ann@test.com '' ''secret2'')
         = ((error_body ''Email already registered'', 409),
            snd (register demo_env [] (registration ''Ann'' ''ANN@Test.com'' ''secret1'')))
     \<and> length (filter (\<lambda>u. email u = py_lower (py_strip ''ANN@Test.com''))
          (snd (register demo_env
                 (snd (register demo_env [] (registration ''Ann'' ''ANN@Test.com'' ''secret1'')))
                 (registration ''Anna'' '' ann@test.com '' ''secret2'')))) = 1"
    unfolding registration_def
    by (rule register_same_email_twice
               [of _ "''Ann''" "''ANN@Test.com''" "''secret1''"
                   _ "''Anna''" "'' ann@test.com ''" "''secret2''"])
       (simp_all add: norm_ANN norm_ann_padded valid_ann query_filter_by_email_def)
  show ?thesis
    using same valid fresh twice by blast
qed

subsection \<open>Required fields\<close>

lemma strip_blank: "py_strip ''   '' = []"
  by code_simp

lemma norm_blank: "py_lower (py_strip ''   '') = []"
  by code_simp

text \<open>
  The claim that a field which is empty after trimming is reported as missing fails:
  the presence check reads the fields as sent, before \<open>strip\<close>. A name of three spaces
  is registered, with the empty name; an email of three spaces is refused as
  \<open>Invalid email format\<close>; a password of six spaces is accepted (it is never trimmed).
\<close>

theorem register_blank_name_counterexample:
  "py_strip ''   '' = []
   \<and> snd (fst (register demo_env [] (registration ''   '' ''ann@test.com'' ''secret1''))) = 201
   \<and> map name (snd (register demo_env [] (registration ''   '' ''ann@test.com'' ''secret1'')))
       = [[]]
   \<and> fst (register demo_env [] (registration ''Ann'' ''   '' ''secret1''))
       = ([(''error'', PStr ''Invalid email format'')], 400)
   \<and> snd (fst (register demo_env [] (registration ''Ann'' ''ann@test.com'' ''      ''))) = 201"
proof -
  have 1: "register demo_env [] (registration ''   '' ''ann@test.com'' ''secret1'') =
             (([(''message'', PStr ''Account created successfully''),
                (''user'', PDict (to_dict
                   \<lparr>user_id = next_id [], name = py_strip ''   '',
                    email = py_lower (py_strip ''ann@test.com''),
                    password_hash = generate_password_hash demo_env ''secret1'', credits = PyInt 100,
                    plan_type = ''free'', created_at = Some (utcnow demo_env), last_login = None,
                    is_active = True\<rparr>))], 201),
              [] @ [\<lparr>user_id = next_id [], name = py_strip ''   '',
                    email = py_lower (py_strip ''ann@test.com''),
                    password_hash = generate_password_hash demo_env ''secret1'', credits = PyInt 100,
                    plan_type = ''free'', created_at = Some (utcnow demo_env), last_login = None,
                    is_active = True\<rparr>])"
    unfolding registration_def
    by (rule register_valid [of _ "''   ''" _ _ ])
       (simp_all add: norm_ann valid_ann query_filter_by_email_def)
  have 2: "snd (fst (register demo_env [] (registration ''Ann'' ''ann@test.com'' ''      ''))) = 201"
    unfolding registration_def
    using register_valid [of "[(''name'', JStr ''Ann''), (''email'', JStr ''ann@test.com''),
                               (''password'', JStr ''      '')]"
                             "''Ann''" "''ann@test.com''" "''      ''" "[]" demo_env]
    by (simp add: norm_ann valid_ann query_filter_by_email_def)
  have 3: "fst (register demo_env [] (registration ''Ann'' ''   '' ''secret1''))
       = ([(''error'', PStr ''Invalid email format'')], 400)"
    by (simp add: register_def register_try_def registration_def required_fields_def
          dict_get_def dict_get_default_def norm_blank validate_email_empty error_body_def)
  show ?thesis
    using 1 2 3 by (simp add: strip_blank)
qed

text \<open>
  C9 (amended). For a registration body that is a JSON object: when name, email or
  password is absent or falsy as sent (null, the empty string, 0, false, an empty list
  or object), the handler answers 400 \<open><field> is required\<close> for the first such field
  in the order name, email, password, and the table is unchanged. When the three are
  present and the email is a non-empty string that is empty after trimming, the
  handler answers 400 \<open>Invalid email format\<close>, and the table is unchanged.
\<close>

theorem register_missing_field:
  "(\<not> truthy (dict_get data ''name'') \<longrightarrow>
      register en st (JObj data) = ((error_body ''name is required'', 400), st))
   \<and> (truthy (dict_get data ''name'') \<and> \<not> truthy (dict_get data ''email'') \<longrightarrow>
      register en st (JObj data) = ((error_body ''email is required'', 400), st))
   \<and> (truthy (dict_get data ''name'') \<and> truthy (dict_get data ''email'')
        \<and> \<not> truthy (dict_get data ''password'') \<longrightarrow>
      register en st (JObj data) = ((error_body ''password is required'', 400), st))
   \<and> (\<forall>n e. dict_get data ''name'' = JStr n \<and> n \<noteq> []
        \<and> dict_get data ''email'' = JStr e \<and> e \<noteq> [] \<and> py_strip e = []
        \<and> truthy (dict_get data ''password'') \<longrightarrow>
      register en st (JObj data) = ((error_body ''Invalid email format'', 400), st))"
  by (simp add: register_def register_try_def required_fields_def py_lower_def
        validate_email_empty)

text \<open>An empty name, an absent email, an empty password, and an email of spaces.\<close>

theorem register_missing_field_witness:
  "\<not> truthy (dict_get [(''name'', JStr []), (''email'', JNull)] ''name'')
   \<and> register demo_env [demo_user 5 True] (JObj [(''name'', JStr []), (''email'', JNull)])
       = ((error_body ''name is required'', 400), [demo_user 5 True])
   \<and> truthy (dict_get [(''name'', JStr ''Bob''), (''password'', JStr ''secret1'')] ''name'')
   \<and> \<not> truthy (dict_get [(''name'', JStr ''Bob''), (''password'', JStr ''secret1'')] ''email'')
   \<and> register demo_env [demo_user 5 True]
         (JObj [(''name'', JStr ''Bob''), (''password'', JStr ''secret1'')])
       = ((error_body ''email is required'', 400), [demo_user 5 True])
   \<and> \<not> truthy (dict_get [(''name'', JStr ''Bob''), (''email'', JStr ''bob@test.com''),
                          (''password'', JStr [])] ''password'')
   \<and> register demo_env [demo_user 5 True]
         (JObj [(''name'', JStr ''Bob''), (''email'', JStr ''bob@test.com''),
                (''password'', JStr [])])
       = ((error_body ''password is required'', 400), [demo_user 5 True])
   \<and> py_strip ''   '' = []
   \<and> register demo_env [demo_user 5 True]
         (JObj [(''name'', JStr ''Bob''), (''email'', JStr ''   ''),
                (''password'', JStr ''secret1'')])
       = ((error_body ''Invalid email format'', 400), [demo_user 5 True])"
  using register_missing_field
          [of "[(''name'', JStr []), (''email'', JNull)]" demo_env "[demo_user 5 True]"]
        register_missing_field
          [of "[(''name'', JStr ''Bob''), (''password'', JStr ''secret1'')]"
              demo_env "[demo_user 5 True]"]
        register_missing_field
          [of "[(''name'', JStr ''Bob''), (''email'', JStr ''bob@test.com''),
                (''password'', JStr [])]" demo_env "[demo_user 5 True]"]
        register_missing_field
          [of "[(''name'', JStr ''Bob''), (''email'', JStr ''   ''),
                (''password'', JStr ''secret1'')]" demo_env "[demo_user 5 True]"]
  by (simp add: dict_get_def dict_get_default_def strip_blank)

section \<open>Credits and non-integer amounts\<close>

lemma half_is_double: "round_double (1 / 2) = Dbl (1 / 2)"
  by code_simp

lemma one_is_double: "round_double 1 = Dbl 1"
  by code_simp

lemma minus_half_is_double: "round_double (- (1 / 2)) = Dbl (- (1 / 2))"
  by code_simp

lemma zero_is_double: "round_double 0 = Dbl 0"
  by (simp add: round_double_def)

lemma run_append: "run st (xs @ ys) = run (run st xs) ys"
  by (induction xs arbitrary: st) auto

lemma spend_all:
  "run [] ((demo_env, Register (registration ''Ann'' ''ANN@Test.com'' ''secret1''))
           # replicate 100 (demo_env, UseCredit 1))
   = [demo_user 0 True]"
  by code_simp

lemma grant_half:
  "add_credits demo_env [demo_user 0 True] 1 (JObj [(''amount'', JFloat (Dbl (1 / 2)))])
   = (([(''message'', PStr ''0.5 credits added successfully''),
        (''total_credits'', PFloat (Dbl (1 / 2)))], 200),
      [demo_user 0 True\<lparr>credits := PyFloat (Dbl (1 / 2))\<rparr>])"
  by (simp add: add_credits_def add_credits_try_def dict_get_default_def query_get_def
        User_add_credits_def int_to_float_def zero_is_double half_is_double db_commit_def
        demo_user_def demo_env_def)

lemma use_half:
  "use_credit [demo_user 0 True\<lparr>credits := PyFloat (Dbl (1 / 2))\<rparr>] 1
   = (([(''message'', PStr ''Credit used successfully''),
        (''remaining_credits'', PFloat (Dbl (- (1 / 2))))], 200),
      [demo_user 0 True\<lparr>credits := PyFloat (Dbl (- (1 / 2)))\<rparr>])"
  by (simp add: use_credit_def use_credit_try_def query_get_def User_use_credit_def
        int_to_float_def one_is_double float_sub_def minus_half_is_double db_commit_def
        demo_user_def)

text \<open>
  C7. Credits are meant never to go negative, and \<open>use_credit\<close> and \<open>add_credits\<close> guard
  for it, but nothing tests that a granted amount is an int. Ann registers and uses
  her 100 credits; a grant of 0.5 (a double, and not \<open>\<le> 0\<close>) is accepted and leaves 0.5
  credits; the next use-credit finds \<open>0.5 > 0\<close>, answers 200 and leaves -0.5 credits.
\<close>

theorem fractional_grant_drives_credits_negative:
  "round_double (1 / 2) = Dbl (1 / 2)
   \<and> handle demo_env
        (run [] ((demo_env, Register (registration ''Ann'' ''ANN@Test.com'' ''secret1''))
                 # replicate 100 (demo_env, UseCredit 1)
                 @ [(demo_env, AddCredits 1 (JObj [(''amount'', JFloat (Dbl (1 / 2)))]))]))
        (UseCredit 1)
     = (([(''message'', PStr ''Credit used successfully''),
          (''remaining_credits'', PFloat (Dbl (- (1 / 2))))], 200),
        [demo_user 0 True\<lparr>credits := PyFloat (Dbl (- (1 / 2)))\<rparr>])
   \<and> (- (1 / 2) :: rat) < 0
   \<and> \<not> float_le_zero (Dbl (1 / 2))"
proof -
  let ?spend = "(demo_env, Register (registration ''Ann'' ''ANN@Test.com'' ''secret1''))
                # replicate 100 (demo_env, UseCredit 1)"
  let ?grant = "(demo_env, AddCredits 1 (JObj [(''amount'', JFloat (Dbl (1 / 2)))]))"
  have "run [] (?spend @ [?grant]) = run (run [] ?spend) [?grant]"
    by (rule run_append)
  also have "\<dots> = run [demo_user 0 True] [?grant]"
    by (simp only: spend_all)
  also have "\<dots> = [demo_user 0 True\<lparr>credits := PyFloat (Dbl (1 / 2))\<rparr>]"
    by (simp only: run.simps handle.simps grant_half snd_conv)
  finally have table:
    "run [] (?spend @ [?grant]) = [demo_user 0 True\<lparr>credits := PyFloat (Dbl (1 / 2))\<rparr>]" .
  have "handle demo_env (run [] (?spend @ [?grant])) (UseCredit 1)
          = (([(''message'', PStr ''Credit used successfully''),
               (''remaining_credits'', PFloat (Dbl (- (1 / 2))))], 200),
             [demo_user 0 True\<lparr>credits := PyFloat (Dbl (- (1 / 2)))\<rparr>])"
    by (simp only: table handle.simps use_half)
  then show ?thesis
    by (simp add: half_is_double)
qed

subsection \<open>Integer amounts only\<close>

lemma nonneg_intE:
  assumes "nonneg_int x"
  obtains c where "x = PyInt c" and "0 \<le> c"
  using assms by (cases x) auto

lemma db_commit_int:
  "\<forall>u\<in>set st. nonneg_int (credits u) \<Longrightarrow> nonneg_int (credits u')
   \<Longrightarrow> \<forall>u\<in>set (db_commit st u'). nonneg_int (credits u)"
  using set_db_commit [of st u'] by auto

lemma filter_by_email_SomeD:
  "query_filter_by_email st e = Some u \<Longrightarrow> u \<in> set st"
  unfolding query_filter_by_email_def by (auto simp: find_Some_iff)

lemma register_table:
  "snd (register en st body) = st
   \<or> (\<exists>u. snd (register en st body) = st @ [u] \<and> credits u = PyInt 100)"
  by (auto simp: register_def register_try_def Let_def db_add_commit_def set_password_def
        User_init_def
      split: json.splits option.splits sum.splits if_splits prod.splits)

lemma login_table:
  "snd (login en st body) = st
   \<or> (\<exists>u\<in>set st. snd (login en st body) = db_commit st (u\<lparr>last_login := Some (utcnow en)\<rparr>))"
  by (auto simp: login_def login_try_def Let_def dest: filter_by_email_SomeD
      split: json.splits option.splits sum.splits if_splits)

lemma use_credit_int:
  assumes "\<forall>u\<in>set st. nonneg_int (credits u)"
  shows "\<forall>u\<in>set (snd (use_credit st uid)). nonneg_int (credits u)"
proof (cases "query_get st uid")
  case None
  then show ?thesis using assms by (simp add: use_credit_def use_credit_try_def)
next
  case (Some u)
  then have "u \<in> set st" by (simp add: query_get_SomeD)
  with assms obtain c where c: "credits u = PyInt c" "0 \<le> c"
    by (auto elim: nonneg_intE)
  show ?thesis
  proof (cases "0 < c")
    case True
    then have "snd (use_credit st uid) = db_commit st (u\<lparr>credits := PyInt (c - 1)\<rparr>)"
      using Some c by (simp add: use_credit_def use_credit_try_def User_use_credit_def)
    then show ?thesis using db_commit_int [OF assms, of "u\<lparr>credits := PyInt (c - 1)\<rparr>"] True
      by simp
  next
    case False
    then have "snd (use_credit st uid) = st"
      using Some c by (simp add: use_credit_def use_credit_try_def User_use_credit_def)
    then show ?thesis using assms by simp
  qed
qed

lemma int_amount:
  assumes "py_le_zero amount = Inr False" and "\<forall>x. amount \<noteq> JFloat x"
  obtains k where "py_num_value amount = PyInt k" and "0 < k"
  using assms by (cases amount) (auto split: if_splits)

lemma add_credits_int:
  assumes "\<forall>u\<in>set st. nonneg_int (credits u)" and "\<not> float_amount (AddCredits uid body)"
  shows "\<forall>u\<in>set (snd (add_credits en st uid body)). nonneg_int (credits u)"
proof (cases "snd (add_credits en st uid body) = st")
  case True
  then show ?thesis using assms by simp
next
  case False
  then obtain data u where b: "body = JObj data"
    and le: "py_le_zero (dict_get_default data ''amount'' (JInt 0)) = Inr False"
    and u: "query_get st uid = Some u"
    by (auto simp: add_credits_def add_credits_try_def Let_def
        split: json.splits option.splits sum.splits bool.splits)
  have "\<forall>x. dict_get_default data ''amount'' (JInt 0) \<noteq> JFloat x"
    using assms(2) b by (auto split: json.splits)
  with le obtain k where k: "py_num_value (dict_get_default data ''amount'' (JInt 0)) = PyInt k"
    "0 < k" by (rule int_amount)
  from u have "u \<in> set st" by (simp add: query_get_SomeD)
  with assms obtain c where c: "credits u = PyInt c" "0 \<le> c"
    by (auto elim: nonneg_intE)
  have "snd (add_credits en st uid body) = db_commit st (u\<lparr>credits := PyInt (c + k)\<rparr>)"
    using b le u k c by (simp add: add_credits_def add_credits_try_def User_add_credits_def)
  then show ?thesis
    using db_commit_int [OF assms(1), of "u\<lparr>credits := PyInt (c + k)\<rparr>"] c k by simp
qed

lemma upgrade_plan_int:
  assumes "\<forall>u\<in>set st. nonneg_int (credits u)"
  shows "\<forall>u\<in>set (snd (upgrade_plan st uid body)). nonneg_int (credits u)"
proof (cases "snd (upgrade_plan st uid body) = st")
  case True
  then show ?thesis using assms by simp
next
  case False
  then obtain data p u where b: "body = JObj data"
    and p: "dict_get_default data ''plan_type'' (JStr []) = JStr p"
    and ok: "py_lower p \<in> {''free'', ''pro'', ''premium''}"
    and u: "query_get st uid = Some u"
    by (auto simp: upgrade_plan_def upgrade_plan_try_def Let_def
        split: json.splits option.splits sum.splits if_splits)
  from u have "u \<in> set st" by (simp add: query_get_SomeD)
  with assms obtain c where c: "credits u = PyInt c" "0 \<le> c"
    by (auto elim: nonneg_intE)
  let ?a = "if py_lower p = ''pro'' then 500 else if py_lower p = ''premium'' then 1000 else (0::int)"
  have keep: "u\<lparr>plan_type := q, credits := PyInt c\<rparr> = u\<lparr>plan_type := q\<rparr>" for q
    using c by simp
  have "snd (upgrade_plan st uid body)
          = db_commit st (u\<lparr>plan_type := py_lower p, credits := PyInt (c + ?a)\<rparr>)"
    using b p ok u c
    by (auto simp: upgrade_plan_def upgrade_plan_try_def User_add_credits_def Let_def keep)
  then show ?thesis
    using db_commit_int [OF assms, of "u\<lparr>plan_type := py_lower p, credits := PyInt (c + ?a)\<rparr>"] c
    by simp
qed

lemma handle_int:
  assumes "\<forall>u\<in>set st. nonneg_int (credits u)" and "\<not> float_amount rq"
  shows "\<forall>u\<in>set (snd (handle en st rq)). nonneg_int (credits u)"
proof (cases rq)
  case (Register body)
  then show ?thesis using assms register_table [of en st body] by auto
next
  case (Login body)
  from login_table [of en st body] show ?thesis
  proof (elim disjE bexE)
    fix u assume "u \<in> set st"
      and "snd (login en st body) = db_commit st (u\<lparr>last_login := Some (utcnow en)\<rparr>)"
    then show ?thesis
      using Login assms db_commit_int [OF assms(1), of "u\<lparr>last_login := Some (utcnow en)\<rparr>"]
      by simp
  qed (simp add: Login assms)
next
  case (GetProfile uid)
  then show ?thesis using assms by (simp add: get_profile_def split: option.splits)
next
  case (UseCredit uid)
  then show ?thesis using use_credit_int [OF assms(1)] by simp
next
  case (AddCredits uid body)
  then show ?thesis using add_credits_int [OF assms(1), of uid body en] assms(2) by simp
next
  case (CheckCredits uid)
  then show ?thesis using assms by (simp add: check_credits_def split: option.splits)
next
  case (UpgradePlan uid body)
  then show ?thesis using upgrade_plan_int [OF assms(1)] by simp
qed

lemma run_int:
  "\<forall>u\<in>set st. nonneg_int (credits u) \<Longrightarrow> \<forall>(en, rq)\<in>set reqs. \<not> float_amount rq
   \<Longrightarrow> \<forall>u\<in>set (run st reqs). nonneg_int (credits u)"
proof (induction reqs arbitrary: st)
  case Nil
  then show ?case by simp
next
  case (Cons r reqs)
  obtain en rq where r: "r = (en, rq)" by (cases r)
  have "\<not> float_amount rq" using Cons.prems(2) r by simp
  from handle_int [OF Cons.prems(1) this, of en]
  have "\<forall>u\<in>set (run (snd (handle en st rq)) reqs). nonneg_int (credits u)"
    using Cons.IH Cons.prems(2) by simp
  then show ?case using r by simp
qed

text \<open>When no grant in the sequence has a float amount, every row of every table
  reached from the empty one has credits that are a non-negative int.\<close>

lemma integer_credits_never_negative:
  assumes "\<forall>(en, rq)\<in>set reqs. \<not> float_amount rq"
  shows "\<forall>u\<in>set (run [] reqs). nonneg_int (credits u)"
  using run_int [OF _ assms, of "[]"] by simp

section \<open>The public view\<close>

lemma num_val_not_dict: "num_val n \<noteq> PDict kvs"
  by (cases n) auto

lemma to_dict_keys:
  "map fst (to_dict u) =
     [''id'', ''name'', ''email'', ''credits'', ''plan_type'', ''created_at'', ''last_login'',
      ''is_active'']"
  by (simp add: to_dict_def)

lemma register_body:
  "(\<exists>m. fst (fst (register en st body)) = error_body m)
   \<or> (\<exists>u. fst (fst (register en st body)) =
          [(''message'', PStr ''Account created successfully''), (''user'', PDict (to_dict u))])"
proof (cases "register_try en st body")
  case (Inl ex)
  then show ?thesis by (auto simp: register_def)
next
  case (Inr r)
  then have "(\<exists>m. fst (fst r) = error_body m)
   \<or> (\<exists>u. fst (fst r) =
          [(''message'', PStr ''Account created successfully''), (''user'', PDict (to_dict u))])"
    by (auto simp: register_try_def Let_def
        split: json.splits option.splits sum.splits if_splits prod.splits)
  then show ?thesis using Inr by (simp add: register_def)
qed

lemma login_body:
  "(\<exists>m. fst (fst (login en st body)) = error_body m)
   \<or> (\<exists>u. fst (fst (login en st body)) =
          [(''message'', PStr ''Login successful''), (''user'', PDict (to_dict u))])"
  by (auto simp: login_def login_try_def Let_def
      split: json.splits option.splits sum.splits if_splits)

lemma upgrade_plan_body:
  "(\<exists>m. fst (fst (upgrade_plan st uid body)) = error_body m)
   \<or> (\<exists>m u. fst (fst (upgrade_plan st uid body)) =
          [(''message'', PStr m), (''user'', PDict (to_dict u))])"
  by (auto simp: upgrade_plan_def upgrade_plan_try_def Let_def
      split: json.splits option.splits sum.splits if_splits)

lemma add_credits_body:
  "(\<exists>m. fst (fst (add_credits en st uid body)) = error_body m)
   \<or> (\<exists>m n. fst (fst (add_credits en st uid body)) =
          [(''message'', PStr m), (''total_credits'', num_val n)])"
  by (auto simp: add_credits_def add_credits_try_def Let_def
      split: json.splits option.splits sum.splits bool.splits)

lemma use_credit_body:
  "(\<exists>m. fst (fst (use_credit st uid)) = error_body m)
   \<or> (\<exists>m n. fst (fst (use_credit st uid)) =
          [(''message'', PStr m), (''remaining_credits'', num_val n)])"
  by (auto simp: use_credit_def use_credit_try_def
      split: option.splits sum.splits prod.splits bool.splits)

lemma handle_body:
  "(\<exists>m. fst (fst (handle en st rq)) = error_body m)
   \<or> (\<exists>m u. fst (fst (handle en st rq)) = [(''message'', PStr m), (''user'', PDict (to_dict u))])
   \<or> (\<exists>u. fst (fst (handle en st rq)) = [(''user'', PDict (to_dict u))])
   \<or> (\<exists>m n. fst (fst (handle en st rq)) =
          [(''message'', PStr m), (''remaining_credits'', num_val n)])
   \<or> (\<exists>m n. fst (fst (handle en st rq)) = [(''message'', PStr m), (''total_credits'', num_val n)])
   \<or> (\<exists>i c q. fst (fst (handle en st rq)) =
          [(''user_id'', PInt i), (''credits'', num_val c), (''plan_type'', PStr q)])"
proof (cases rq)
  case (Register body)
  then show ?thesis using register_body [of en st body] by auto
next
  case (Login body)
  then show ?thesis using login_body [of en st body] by auto
next
  case (GetProfile uid)
  then show ?thesis by (auto simp: get_profile_def split: option.splits)
next
  case (UseCredit uid)
  then show ?thesis using use_credit_body [of st uid] by auto
next
  case (AddCredits uid body)
  then show ?thesis using add_credits_body [of en st uid body] by auto
next
  case (CheckCredits uid)
  then show ?thesis by (auto simp: check_credits_def split: option.splits)
next
  case (UpgradePlan uid body)
  then show ?thesis using upgrade_plan_body [of st uid body] by auto
qed

text \<open>
  C8. The public view \<open>to_dict\<close> of every user has exactly the fields id, name, email,
  credits, plan_type, created_at, last_login, is_active, so no \<open>password_hash\<close>; and in
  the response body of every request, on every path, no key is \<open>password_hash\<close> and
  every dict-valued entry is the public view of some user.
\<close>

theorem public_view_fields:
  "map fst (to_dict u) =
     [''id'', ''name'', ''email'', ''credits'', ''plan_type'', ''created_at'', ''last_login'',
      ''is_active'']
   \<and> ''password_hash'' \<notin> set (map fst (to_dict u))
   \<and> (\<forall>(k, v) \<in> set (fst (fst (handle en st rq))).
         k \<noteq> ''password_hash'' \<and> (\<forall>kvs. v = PDict kvs \<longrightarrow> (\<exists>w. kvs = to_dict w)))"
proof -
  have "\<forall>(k, v) \<in> set (fst (fst (handle en st rq))).
         k \<noteq> ''password_hash'' \<and> (\<forall>kvs. v = PDict kvs \<longrightarrow> (\<exists>w. kvs = to_dict w))"
    using handle_body [of en st rq]
    by (elim disjE exE) (simp_all add: error_body_def num_val_not_dict, blast+)
  then show ?thesis by (simp add: to_dict_keys)
qed

text \<open>The profile of the example account.\<close>

theorem public_view_fields_witness:
  "(''user'', PDict (to_dict (demo_user 5 True)))
     \<in> set (fst (fst (handle demo_env [demo_user 5 True] (GetProfile 1))))
   \<and> ''user'' \<noteq> ''password_hash''
   \<and> (\<exists>w. to_dict (demo_user 5 True) = to_dict w)
   \<and> ''password_hash'' \<notin> set (map fst (to_dict (demo_user 5 True)))"
proof -
  have "(''user'', PDict (to_dict (demo_user 5 True)))
     \<in> set (fst (fst (handle demo_env [demo_user 5 True] (GetProfile 1))))"
    by (simp add: get_profile_def query_get_def demo_user_def)
  then show ?thesis
    using public_view_fields [of "demo_user 5 True" demo_env "[demo_user 5 True]" "GetProfile 1"]
    by blast
qed

end
